theory Spec2Isabelle
  imports Main
begin

section \<open>Python values and exceptions\<close>

text \<open>
  The exceptions the program can raise by itself: a missing key of a dictionary
  (with the key) and a list index out of range.
\<close>

datatype exception = KeyError string | IndexError

text \<open>
  A dictionary with string keys and string values, as the feed parser hands them out.
  \<open>d[k]\<close> raises \<open>KeyError\<close> when the key is absent.
\<close>

type_synonym pydict = "string \<rightharpoonup> string"

definition dict_getitem :: "pydict \<Rightarrow> string \<Rightarrow> exception + string" where
  "dict_getitem d k = (case d k of None \<Rightarrow> Inl (KeyError k) | Some v \<Rightarrow> Inr v)"

text \<open>
  \<open>xs[i]\<close> on a Python list: an index from \<open>0\<close> to \<open>len(xs) - 1\<close> reads from the
  front, an index from \<open>-len(xs)\<close> to \<open>-1\<close> reads from the back, anything else raises
  \<open>IndexError\<close>.
\<close>

definition list_getitem :: "'a list \<Rightarrow> int \<Rightarrow> exception + 'a" where
  "list_getitem xs i =
     (if 0 \<le> i \<and> i < int (length xs) then Inr (xs ! nat i)
      else if - int (length xs) \<le> i \<and> i < 0 then Inr (xs ! nat (int (length xs) + i))
      else Inl IndexError)"

section \<open>The Qt values the program handles\<close>

text \<open>
  A \<open>QModelIndex\<close>: its row, its column and whether it belongs to a model. Qt calls it
  valid when the row and the column are not negative and the model is set; the default
  index has row and column \<open>-1\<close> and no model.
\<close>

record qmodelindex =
  row :: int
  column :: int
  has_model :: bool

definition isValid :: "qmodelindex \<Rightarrow> bool" where
  "isValid index \<longleftrightarrow> 0 \<le> row index \<and> 0 \<le> column index \<and> has_model index"

text \<open>A \<open>QVariant\<close> is either empty (\<open>QVariant()\<close>) or holds a string.\<close>

datatype qvariant = QVariantEmpty | QVariant string

text \<open>Item data roles are integers; \<open>Qt.DisplayRole\<close> is \<open>0\<close>.\<close>

definition DisplayRole :: int where
  "DisplayRole = 0"

datatype orientation = Horizontal | Vertical

text \<open>A \<open>QUrl\<close> built from a string; the parsing Qt does inside is not part of the program.\<close>

datatype qurl = QUrl string

section \<open>The state of the application\<close>

text \<open>
  Python lists are objects: \<open>RssFrame.data\<close> and \<open>RssModel.arraydata\<close> are references, and
  the constructor of the frame hands its own list to the model. The store maps the address
  of a list object to its content, a list of rows, each row a list of strings.
\<close>

type_synonym addr = nat
type_synonym article = "string list"

record rss_model =
  arraydata :: addr
  layoutChanged :: nat

text \<open>
  \<open>layoutChanged\<close> counts the emissions of the signal of that name. Of the widgets, the
  state keeps what the handlers read and write: the text of the URL field, the selection
  of the table, the HTML last given to the description pane and the URL last loaded into
  the browser.
\<close>

record rss_frame =
  heap :: "addr \<Rightarrow> article list"
  data :: addr
  rssModel :: rss_model
  feedURLEdit :: string
  selectedIndexes :: "qmodelindex list"
  description :: string
  browser :: "qurl option"

text \<open>What \<open>feedparser.parse\<close> returns: the dictionary of the feed and the list of entries.\<close>

record parsed_feed =
  feed :: pydict
  entries :: "pydict list"

section \<open>RssModel\<close>

definition rowCount :: "(addr \<Rightarrow> article list) \<Rightarrow> rss_model \<Rightarrow> int" where
  "rowCount h m = int (length (h (arraydata m)))"

definition columnCount :: "(addr \<Rightarrow> article list) \<Rightarrow> rss_model \<Rightarrow> int" where
  "columnCount h m =
     (if length (h (arraydata m)) > 0 then int (length (h (arraydata m) ! 0)) - 2 else 0)"

definition data_RssModel ::
  "(addr \<Rightarrow> article list) \<Rightarrow> rss_model \<Rightarrow> qmodelindex \<Rightarrow> int \<Rightarrow> exception + qvariant" where
  "data_RssModel h m index role =
     (if \<not> isValid index then Inr QVariantEmpty
      else if column index < 2 then
        (if role = DisplayRole then
           (case list_getitem (h (arraydata m)) (row index) of
              Inl e \<Rightarrow> Inl e
            | Inr r \<Rightarrow>
                (case list_getitem r (column index) of
                   Inl e \<Rightarrow> Inl e
                 | Inr v \<Rightarrow> Inr (QVariant v)))
         else Inr QVariantEmpty)
      else Inr QVariantEmpty)"

definition update :: "rss_model \<Rightarrow> addr \<Rightarrow> rss_model" where
  "update m datain = m\<lparr>arraydata := datain, layoutChanged := layoutChanged m + 1\<rparr>"

definition summary ::
  "(addr \<Rightarrow> article list) \<Rightarrow> rss_model \<Rightarrow> qmodelindex \<Rightarrow> exception + string" where
  "summary h m index =
     (case list_getitem (h (arraydata m)) (row index) of
        Inl e \<Rightarrow> Inl e
      | Inr r \<Rightarrow> list_getitem r 2)"

definition url ::
  "(addr \<Rightarrow> article list) \<Rightarrow> rss_model \<Rightarrow> qmodelindex \<Rightarrow> exception + string" where
  "url h m index =
     (case list_getitem (h (arraydata m)) (row index) of
        Inl e \<Rightarrow> Inl e
      | Inr r \<Rightarrow> list_getitem r 3)"

text \<open>
  \<open>headerData\<close> returns a string, or Python's \<open>None\<close> (also when no \<open>return\<close> is
  reached), or raises when the section is no index of the two-element list.
\<close>

definition headerData :: "int \<Rightarrow> orientation \<Rightarrow> int \<Rightarrow> exception + string option" where
  "headerData section orientation role =
     (if role = DisplayRole then
        (if orientation = Horizontal then
           (case list_getitem [''Title'', ''Website''] section of
              Inl e \<Rightarrow> Inl e
            | Inr v \<Rightarrow> Inr (Some v))
         else if orientation = Vertical then Inr None
         else Inr None)
      else Inr None)"

section \<open>RssFrame\<close>

text \<open>
  The constructor: a fresh empty list at address \<open>0\<close>, shared with the model, nothing
  selected, nothing displayed.
\<close>

definition init :: rss_frame where
  "init = \<lparr>heap = (\<lambda>_. []), data = 0,
            rssModel = \<lparr>arraydata = 0, layoutChanged = 0\<rparr>,
            feedURLEdit = [], selectedIndexes = [], description = [], browser = None\<rparr>"

text \<open>
  The body of the loop of \<open>on_button_click\<close> reads the three fields of an entry in the
  order title, link, summary and builds the row \<open>[title, website, summary, link]\<close>.
\<close>

definition entry_row :: "string \<Rightarrow> pydict \<Rightarrow> exception + article" where
  "entry_row website key =
     (case dict_getitem key ''title'' of
        Inl e \<Rightarrow> Inl e
      | Inr title \<Rightarrow>
          (case dict_getitem key ''link'' of
             Inl e \<Rightarrow> Inl e
           | Inr link \<Rightarrow>
               (case dict_getitem key ''summary'' of
                  Inl e \<Rightarrow> Inl e
                | Inr summary' \<Rightarrow> Inr [title, website, summary', link])))"

definition data_append :: "rss_frame \<Rightarrow> article \<Rightarrow> rss_frame" where
  "data_append s r = s\<lparr>heap := (heap s)(data s := heap s (data s) @ [r])\<rparr>"

fun on_button_click_loop ::
  "string \<Rightarrow> pydict list \<Rightarrow> rss_frame \<Rightarrow> (exception + unit) \<times> rss_frame" where
  "on_button_click_loop website [] s = (Inr (), s)"
| "on_button_click_loop website (key # keys) s =
     (case entry_row website key of
        Inl e \<Rightarrow> (Inl e, s)
      | Inr r \<Rightarrow> on_button_click_loop website keys (data_append s r))"

text \<open>
  The parser is the external collaborator: \<open>parse\<close> stands for \<open>feedparser.parse\<close>. An
  exception leaves the handler with the state reached so far. The last line of the handler
  only sets the resize mode of the header and is left out.
\<close>

definition on_button_click ::
  "(string \<Rightarrow> parsed_feed) \<Rightarrow> rss_frame \<Rightarrow> (exception + unit) \<times> rss_frame" where
  "on_button_click parse s =
     (let rss = feedURLEdit s;
          fd = parse rss
      in case dict_getitem (feed fd) ''title'' of
           Inl e \<Rightarrow> (Inl e, s)
         | Inr website \<Rightarrow>
             (case on_button_click_loop website (entries fd) s of
                (Inl e, s') \<Rightarrow> (Inl e, s')
              | (Inr u, s') \<Rightarrow> (Inr (), s'\<lparr>rssModel := update (rssModel s') (data s')\<rparr>)))"

definition on_click :: "rss_frame \<Rightarrow> (exception + unit) \<times> rss_frame" where
  "on_click s =
     (case list_getitem (selectedIndexes s) 0 of
        Inl e \<Rightarrow> (Inl e, s)
      | Inr index \<Rightarrow>
          (case summary (heap s) (rssModel s) index of
             Inl e \<Rightarrow> (Inl e, s)
           | Inr sm \<Rightarrow> (Inr (), s\<lparr>description := ''<html><body>'' @ sm @ ''</body></html>''\<rparr>)))"

definition on_double_click :: "rss_frame \<Rightarrow> (exception + unit) \<times> rss_frame" where
  "on_double_click s =
     (case list_getitem (selectedIndexes s) 0 of
        Inl e \<Rightarrow> (Inl e, s)
      | Inr index \<Rightarrow>
          (case url (heap s) (rssModel s) index of
             Inl e \<Rightarrow> (Inl e, s)
           | Inr link \<Rightarrow> (Inr (), s\<lparr>browser := Some (QUrl link)\<rparr>)))"

section \<open>Vocabulary of the specification\<close>

text \<open>
  An entry is complete when it has the three fields the handler reads; a feed is valid
  when it has a feed-level title and every entry is complete.
\<close>

definition has_fields :: "pydict \<Rightarrow> bool" where
  "has_fields e \<longleftrightarrow> e ''title'' \<noteq> None \<and> e ''link'' \<noteq> None \<and> e ''summary'' \<noteq> None"

definition valid_feed :: "parsed_feed \<Rightarrow> bool" where
  "valid_feed fd \<longleftrightarrow> feed fd ''title'' \<noteq> None \<and> list_all has_fields (entries fd)"

text \<open>The record of a complete entry, with the given source.\<close>

definition record_of :: "string \<Rightarrow> pydict \<Rightarrow> article" where
  "record_of website e = [the (e ''title''), website, the (e ''summary''), the (e ''link'')]"

text \<open>The first key, in the order the handler reads them, that an incomplete entry lacks.\<close>

definition missing_key :: "pydict \<Rightarrow> string" where
  "missing_key e =
     (if e ''title'' = None then ''title'' else if e ''link'' = None then ''link'' else ''summary'')"

text \<open>The state after the rows \<open>rs\<close> have been appended to the list of the frame.\<close>

definition appended :: "rss_frame \<Rightarrow> article list \<Rightarrow> rss_frame" where
  "appended s rs = s\<lparr>heap := (heap s)(data s := heap s (data s) @ rs)\<rparr>"

text \<open>
  The states the application can be in: the constructor's state, and what the user's
  editing, selecting and the three handlers make of a state, whether a handler returns or
  raises.
\<close>

inductive reachable :: "rss_frame \<Rightarrow> bool" where
  start: "reachable init"
| edit: "reachable s \<Longrightarrow> reachable (s\<lparr>feedURLEdit := t\<rparr>)"
| select: "reachable s \<Longrightarrow> reachable (s\<lparr>selectedIndexes := sel\<rparr>)"
| button: "reachable s \<Longrightarrow> reachable (snd (on_button_click parse s))"
| click: "reachable s \<Longrightarrow> reachable (snd (on_click s))"
| double_click: "reachable s \<Longrightarrow> reachable (snd (on_double_click s))"

subsection \<open>A running example\<close>

text \<open>
  The feed titled Site with the entries A and B, and the state of the application after
  fetching it once from the start.
\<close>

definition example_parse :: "string \<Rightarrow> parsed_feed" where
  "example_parse u =
     \<lparr>feed = [''title'' \<mapsto> ''Site''],
      entries = [[''title'' \<mapsto> ''A'', ''link'' \<mapsto> ''http://x/a'', ''summary'' \<mapsto> ''sa''],
                 [''title'' \<mapsto> ''B'', ''link'' \<mapsto> ''http://x/b'', ''summary'' \<mapsto> ''sb'']]\<rparr>"

definition example_frame :: rss_frame where
  "example_frame =
     \<lparr>heap = (\<lambda>_. [])(0 := [[''A'', ''Site'', ''sa'', ''http://x/a''],
                              [''B'', ''Site'', ''sb'', ''http://x/b'']]),
      data = 0,
      rssModel = \<lparr>arraydata = 0, layoutChanged = 1\<rparr>,
      feedURLEdit = [], selectedIndexes = [], description = [], browser = None\<rparr>"

text \<open>
  A feed whose second entry has no link, and what the parser returns when it could not
  read a feed at all: no feed-level title and no entries.
\<close>

definition broken_parse :: "string \<Rightarrow> parsed_feed" where
  "broken_parse u =
     \<lparr>feed = [''title'' \<mapsto> ''Site''],
      entries = [[''title'' \<mapsto> ''A'', ''link'' \<mapsto> ''http://x/a'', ''summary'' \<mapsto> ''sa''],
                 [''title'' \<mapsto> ''B'', ''summary'' \<mapsto> ''sb''],
                 [''title'' \<mapsto> ''C'', ''link'' \<mapsto> ''http://x/c'', ''summary'' \<mapsto> ''sc'']]\<rparr>"

definition untitled_parse :: "string \<Rightarrow> parsed_feed" where
  "untitled_parse u = \<lparr>feed = Map.empty, entries = []\<rparr>"

text \<open>
  What the constructor establishes and every handler keeps: the model reads the list of the
  frame, and every row has the four fields.
\<close>

definition well_formed :: "rss_frame \<Rightarrow> bool" where
  "well_formed s \<longleftrightarrow>
     arraydata (rssModel s) = data s \<and> list_all (\<lambda>r. length r = 4) (heap s (data s))"

section \<open>Properties of the fetch\<close>

lemma entry_row_ok: "has_fields e \<Longrightarrow> entry_row w e = Inr (record_of w e)"
  by (auto simp: has_fields_def entry_row_def dict_getitem_def record_of_def)

lemma entry_row_fail: "\<not> has_fields e \<Longrightarrow> entry_row w e = Inl (KeyError (missing_key e))"
  by (auto simp: has_fields_def entry_row_def dict_getitem_def missing_key_def
      split: option.splits)

lemma appended_Nil: "appended s [] = s"
  by (simp add: appended_def)

lemma appended_Cons: "appended (data_append s r) rs = appended s (r # rs)"
  by (simp add: appended_def data_append_def)

lemma loop_ok:
  "list_all has_fields es \<Longrightarrow>
   on_button_click_loop w es s = (Inr (), appended s (map (record_of w) es))"
proof (induction es arbitrary: s)
  case Nil
  show ?case by (simp add: appended_Nil)
next
  case (Cons e es)
  then show ?case by (simp add: entry_row_ok appended_Cons)
qed

lemma loop_fail:
  "list_all has_fields pre \<Longrightarrow> \<not> has_fields e \<Longrightarrow>
   on_button_click_loop w (pre @ e # post) s =
     (Inl (KeyError (missing_key e)), appended s (map (record_of w) pre))"
proof (induction pre arbitrary: s)
  case Nil
  then show ?case by (simp add: entry_row_fail appended_Nil)
next
  case (Cons p pre)
  then show ?case by (simp add: entry_row_ok appended_Cons)
qed

lemma on_button_click_ok:
  assumes "valid_feed (parse (feedURLEdit s))"
  shows "on_button_click parse s =
     (Inr (), (appended s (map (record_of (the (feed (parse (feedURLEdit s)) ''title'')))
                               (entries (parse (feedURLEdit s)))))
                \<lparr>rssModel := update (rssModel s) (data s)\<rparr>)"
  using assms
  by (auto simp: valid_feed_def on_button_click_def Let_def dict_getitem_def loop_ok
      appended_def)

lemma fetched_rows:
  assumes "valid_feed (parse (feedURLEdit s))"
    and "on_button_click parse s = (res, s')"
  shows "res = Inr ()"
    and "data s' = data s"
    and "arraydata (rssModel s') = data s"
    and "heap s' (data s) = heap s (data s) @
           map (record_of (the (feed (parse (feedURLEdit s)) ''title'')))
             (entries (parse (feedURLEdit s)))"
  using assms by (auto simp: on_button_click_ok appended_def update_def)

section \<open>Properties of the accessors\<close>

lemma summary_row:
  "i < length (h (arraydata m)) \<Longrightarrow> row index = int i \<Longrightarrow>
   h (arraydata m) ! i = [t, w, sm, l] \<Longrightarrow> summary h m index = Inr sm"
  by (simp add: summary_def list_getitem_def)

lemma url_row:
  "i < length (h (arraydata m)) \<Longrightarrow> row index = int i \<Longrightarrow>
   h (arraydata m) ! i = [t, w, sm, l] \<Longrightarrow> url h m index = Inr l"
  by (simp add: url_def list_getitem_def)

lemma data_row:
  "i < length (h (arraydata m)) \<Longrightarrow> row index = int i \<Longrightarrow> has_model index \<Longrightarrow>
   h (arraydata m) ! i = [t, w, sm, l] \<Longrightarrow>
   (column index = 0 \<longrightarrow> data_RssModel h m index DisplayRole = Inr (QVariant t)) \<and>
   (column index = 1 \<longrightarrow> data_RssModel h m index DisplayRole = Inr (QVariant w))"
  by (simp add: data_RssModel_def isValid_def list_getitem_def)

section \<open>The invariant of the reachable states\<close>

lemma entry_row_length: "entry_row w e = Inr r \<Longrightarrow> length r = 4"
  by (auto simp: entry_row_def split: sum.splits)

lemma well_formed_data_append:
  "well_formed s \<Longrightarrow> length r = 4 \<Longrightarrow> well_formed (data_append s r)"
  by (simp add: well_formed_def data_append_def)

lemma loop_well_formed:
  "well_formed s \<Longrightarrow> well_formed (snd (on_button_click_loop w es s))"
proof (induction es arbitrary: s)
  case Nil
  then show ?case by simp
next
  case (Cons e es)
  show ?case
  proof (cases "entry_row w e")
    case (Inl x)
    with Cons.prems show ?thesis by simp
  next
    case (Inr r)
    with Cons.prems have "well_formed (data_append s r)"
      by (simp add: well_formed_data_append entry_row_length)
    with Cons.IH Inr show ?thesis by simp
  qed
qed

lemma on_button_click_well_formed:
  assumes "well_formed s"
  shows "well_formed (snd (on_button_click parse s))"
proof -
  let ?fd = "parse (feedURLEdit s)"
  show ?thesis
  proof (cases "feed ?fd ''title''")
    case None
    with assms show ?thesis by (simp add: on_button_click_def dict_getitem_def)
  next
    case (Some w)
    obtain res s' where l: "on_button_click_loop w (entries ?fd) s = (res, s')"
      by (cases "on_button_click_loop w (entries ?fd) s")
    from loop_well_formed [OF assms, of w "entries ?fd"] l have "well_formed s'" by simp
    then show ?thesis using Some l
      by (cases res) (simp_all add: on_button_click_def dict_getitem_def well_formed_def update_def)
  qed
qed

lemma on_click_well_formed: "well_formed s \<Longrightarrow> well_formed (snd (on_click s))"
  by (auto simp: on_click_def well_formed_def split: sum.splits)

lemma on_double_click_well_formed: "well_formed s \<Longrightarrow> well_formed (snd (on_double_click s))"
  by (auto simp: on_double_click_def well_formed_def split: sum.splits)

lemma reachable_well_formed: "reachable s \<Longrightarrow> well_formed s"
proof (induction rule: reachable.induct)
  case start
  show ?case by (simp add: well_formed_def init_def)
next
  case (edit s t)
  then show ?case by (simp add: well_formed_def)
next
  case (select s sel)
  then show ?case by (simp add: well_formed_def)
next
  case (button s parse)
  then show ?case by (simp add: on_button_click_well_formed)
next
  case (click s)
  then show ?case by (simp add: on_click_well_formed)
next
  case (double_click s)
  then show ?case by (simp add: on_double_click_well_formed)
qed

lemma reachable_example_frame: "reachable example_frame"
proof -
  have "snd (on_button_click example_parse init) = example_frame"
    by (simp add: example_frame_def on_button_click_def example_parse_def init_def Let_def
      dict_getitem_def entry_row_def data_append_def update_def)
  with reachable.button [OF reachable.start, of example_parse] show ?thesis by simp
qed

section \<open>The claims\<close>

text \<open>
  C1. A fetch of a valid feed with N entries does not raise and leaves the table model with
  N rows more than it had; with no entries the row count stays what it was. The model and
  the frame share their list, as they do in every reachable state.
\<close>

theorem fetch_row_count:
  assumes "valid_feed (parse (feedURLEdit s))"
    and "arraydata (rssModel s) = data s"
    and "on_button_click parse s = (res, s')"
  shows "res = Inr () \<and>
         rowCount (heap s') (rssModel s') =
           rowCount (heap s) (rssModel s) + int (length (entries (parse (feedURLEdit s)))) \<and>
         (entries (parse (feedURLEdit s)) = [] \<longrightarrow>
            rowCount (heap s') (rssModel s') = rowCount (heap s) (rssModel s))"
  using assms by (auto simp: on_button_click_ok rowCount_def appended_def update_def)

theorem fetch_row_count_witness:
  "valid_feed (example_parse (feedURLEdit init)) \<and>
   arraydata (rssModel init) = data init \<and>
   on_button_click example_parse init = (Inr (), example_frame) \<and>
   rowCount (heap example_frame) (rssModel example_frame) =
     rowCount (heap init) (rssModel init) + 2"
  using fetch_row_count [of example_parse init "Inr ()" example_frame]
  by (simp add: example_frame_def on_button_click_def example_parse_def init_def Let_def
      dict_getitem_def entry_row_def data_append_def update_def valid_feed_def has_fields_def)

text \<open>
  C2. Every record a fetch of a valid feed appends has the feed-level title as its source
  and the title, summary and link of its entry; the accessors \<open>summary\<close> and \<open>url\<close> return
  the stored summary and link of a row in range as they are.
\<close>

theorem fetch_appends_records:
  assumes "valid_feed (parse (feedURLEdit s))"
    and "on_button_click parse s = (res, s')"
    and "feed (parse (feedURLEdit s)) ''title'' = Some website"
    and "i < length (entries (parse (feedURLEdit s)))"
    and "(entries (parse (feedURLEdit s)) ! i) ''title'' = Some t"
    and "(entries (parse (feedURLEdit s)) ! i) ''summary'' = Some sm"
    and "(entries (parse (feedURLEdit s)) ! i) ''link'' = Some l"
    and "row index = int (length (heap s (data s)) + i)"
  shows "heap s' (data s') ! (length (heap s (data s)) + i) = [t, website, sm, l] \<and>
         summary (heap s') (rssModel s') index = Inr sm \<and>
         url (heap s') (rssModel s') index = Inr l \<and>
         (\<forall>j t' w' sm' l'.
            0 \<le> row j \<and> row j < rowCount (heap s') (rssModel s') \<and>
            heap s' (arraydata (rssModel s')) ! nat (row j) = [t', w', sm', l'] \<longrightarrow>
            summary (heap s') (rssModel s') j = Inr sm' \<and> url (heap s') (rssModel s') j = Inr l')"
proof -
  let ?n = "length (heap s (data s))"
  note f = fetched_rows [OF assms(1,2)]
  have r: "heap s' (data s') ! (?n + i) = [t, website, sm, l]"
    using assms(3-7) by (simp add: f nth_append record_of_def)
  have len: "?n + i < length (heap s' (data s'))"
    using assms(4) by (simp add: f)
  have "summary (heap s') (rssModel s') index = Inr sm"
    using r len assms(8)
    by (intro summary_row [where i = "?n + i" and t = t and w = website and l = l])
      (simp_all add: f)
  moreover have "url (heap s') (rssModel s') index = Inr l"
    using r len assms(8)
    by (intro url_row [where i = "?n + i" and t = t and w = website and sm = sm])
      (simp_all add: f)
  moreover have "\<forall>j t' w' sm' l'.
            0 \<le> row j \<and> row j < rowCount (heap s') (rssModel s') \<and>
            heap s' (arraydata (rssModel s')) ! nat (row j) = [t', w', sm', l'] \<longrightarrow>
            summary (heap s') (rssModel s') j = Inr sm' \<and> url (heap s') (rssModel s') j = Inr l'"
  proof (intro allI impI, elim conjE)
    fix j :: qmodelindex and t' w' sm' l'
    assume a: "0 \<le> row j" "row j < rowCount (heap s') (rssModel s')"
      "heap s' (arraydata (rssModel s')) ! nat (row j) = [t', w', sm', l']"
    from a(1,2) have "nat (row j) < length (heap s' (arraydata (rssModel s')))"
      and "row j = int (nat (row j))"
      by (simp_all add: rowCount_def)
    with a(3) show "summary (heap s') (rssModel s') j = Inr sm' \<and>
        url (heap s') (rssModel s') j = Inr l'"
      using summary_row url_row by blast
  qed
  ultimately show ?thesis using r by simp
qed

theorem fetch_appends_records_witness:
  "valid_feed (example_parse (feedURLEdit init)) \<and>
   on_button_click example_parse init = (Inr (), example_frame) \<and>
   feed (example_parse (feedURLEdit init)) ''title'' = Some ''Site'' \<and>
   (1::nat) < length (entries (example_parse (feedURLEdit init))) \<and>
   (entries (example_parse (feedURLEdit init)) ! 1) ''title'' = Some ''B'' \<and>
   (entries (example_parse (feedURLEdit init)) ! 1) ''summary'' = Some ''sb'' \<and>
   (entries (example_parse (feedURLEdit init)) ! 1) ''link'' = Some ''http://x/b'' \<and>
   heap example_frame (data example_frame) ! 1 = [''B'', ''Site'', ''sb'', ''http://x/b''] \<and>
   summary (heap example_frame) (rssModel example_frame)
     \<lparr>row = 1, column = 0, has_model = True\<rparr> = Inr ''sb'' \<and>
   url (heap example_frame) (rssModel example_frame)
     \<lparr>row = 1, column = 0, has_model = True\<rparr> = Inr ''http://x/b''"
  using fetch_appends_records [of example_parse init "Inr ()" example_frame "''Site''" 1
      "''B''" "''sb''" "''http://x/b''" "\<lparr>row = 1, column = 0, has_model = True\<rparr>"]
  by (simp add: example_frame_def on_button_click_def example_parse_def init_def Let_def
      dict_getitem_def entry_row_def data_append_def update_def valid_feed_def has_fields_def
      summary_def url_def list_getitem_def)

text \<open>
  C3. After a fetch of a valid feed, the cell of column 0 of the i-th new row shows the
  title of the i-th entry and the cell of column 1 the feed-level title; the new rows
  follow the rows that were there, in the order of the entries.
\<close>

theorem fetch_displays_rows:
  assumes "valid_feed (parse (feedURLEdit s))"
    and "on_button_click parse s = (res, s')"
    and "feed (parse (feedURLEdit s)) ''title'' = Some website"
    and "i < length (entries (parse (feedURLEdit s)))"
    and "(entries (parse (feedURLEdit s)) ! i) ''title'' = Some t"
    and "row index = int (length (heap s (data s)) + i)"
    and "has_model index"
  shows "(column index = 0 \<longrightarrow>
            data_RssModel (heap s') (rssModel s') index DisplayRole = Inr (QVariant t)) \<and>
         (column index = 1 \<longrightarrow>
            data_RssModel (heap s') (rssModel s') index DisplayRole = Inr (QVariant website)) \<and>
         take (length (heap s (data s))) (heap s' (arraydata (rssModel s'))) = heap s (data s)"
proof -
  let ?n = "length (heap s (data s))"
  let ?e = "entries (parse (feedURLEdit s)) ! i"
  note f = fetched_rows [OF assms(1,2)]
  have r: "heap s' (arraydata (rssModel s')) ! (?n + i) =
      [t, website, the (?e ''summary''), the (?e ''link'')]"
    using assms(3-5) by (simp add: f nth_append record_of_def)
  have len: "?n + i < length (heap s' (arraydata (rssModel s')))"
    using assms(4) by (simp add: f)
  have "take ?n (heap s' (arraydata (rssModel s'))) = heap s (data s)"
    by (simp add: f)
  with data_row [of "?n + i" "heap s'" "rssModel s'" index, OF len assms(6,7) r]
  show ?thesis by simp
qed

theorem fetch_displays_rows_witness:
  "valid_feed (example_parse (feedURLEdit init)) \<and>
   on_button_click example_parse init = (Inr (), example_frame) \<and>
   feed (example_parse (feedURLEdit init)) ''title'' = Some ''Site'' \<and>
   (1::nat) < length (entries (example_parse (feedURLEdit init))) \<and>
   (entries (example_parse (feedURLEdit init)) ! 1) ''title'' = Some ''B'' \<and>
   data_RssModel (heap example_frame) (rssModel example_frame)
     \<lparr>row = 1, column = 0, has_model = True\<rparr> DisplayRole = Inr (QVariant ''B'')"
  using fetch_displays_rows [of example_parse init "Inr ()" example_frame "''Site''" 1
      "''B''" "\<lparr>row = 1, column = 0, has_model = True\<rparr>"]
  by (simp add: example_frame_def on_button_click_def example_parse_def init_def Let_def
      dict_getitem_def entry_row_def data_append_def update_def valid_feed_def has_fields_def)

text \<open>
  C4. With row r selected, whose stored summary is \<open>sm\<close>, the single-selection handler
  gives the description pane exactly \<open><html><body>\<close>, then \<open>sm\<close> as it is, then
  \<open></body></html>\<close>.
\<close>

theorem on_click_renders:
  assumes "selectedIndexes s = index # rest"
    and "0 \<le> row index" and "row index < rowCount (heap s) (rssModel s)"
    and "heap s (arraydata (rssModel s)) ! nat (row index) = [t, w, sm, l]"
  shows "on_click s = (Inr (), s\<lparr>description := ''<html><body>'' @ sm @ ''</body></html>''\<rparr>)"
proof -
  have "list_getitem (selectedIndexes s) 0 = Inr index"
    using assms(1) by (simp add: list_getitem_def)
  moreover have "summary (heap s) (rssModel s) index = Inr sm"
    using assms(2-4) by (intro summary_row [where i = "nat (row index)"]) (simp_all add: rowCount_def)
  ultimately show ?thesis by (simp add: on_click_def)
qed

theorem on_click_renders_witness:
  "selectedIndexes (example_frame\<lparr>selectedIndexes := [\<lparr>row = 1, column = 0, has_model = True\<rparr>]\<rparr>) =
     \<lparr>row = 1, column = 0, has_model = True\<rparr> # [] \<and>
   (1::int) < rowCount (heap example_frame) (rssModel example_frame) \<and>
   heap example_frame (arraydata (rssModel example_frame)) ! 1 = [''B'', ''Site'', ''sb'', ''http://x/b''] \<and>
   description (snd (on_click (example_frame\<lparr>selectedIndexes := [\<lparr>row = 1, column = 0, has_model = True\<rparr>]\<rparr>))) =
     ''<html><body>sb</body></html>''"
  using on_click_renders [of "example_frame\<lparr>selectedIndexes := [\<lparr>row = 1, column = 0, has_model = True\<rparr>]\<rparr>"
      "\<lparr>row = 1, column = 0, has_model = True\<rparr>" "[]" "''B''" "''Site''" "''sb''" "''http://x/b''"]
  by (simp add: example_frame_def rowCount_def)

text \<open>
  C5. With row r selected, the double-selection handler loads into the browser the URL
  built from the stored link of row r as it is, whatever the string.
\<close>

theorem on_double_click_navigates:
  assumes "selectedIndexes s = index # rest"
    and "0 \<le> row index" and "row index < rowCount (heap s) (rssModel s)"
    and "heap s (arraydata (rssModel s)) ! nat (row index) = [t, w, sm, l]"
  shows "on_double_click s = (Inr (), s\<lparr>browser := Some (QUrl l)\<rparr>)"
proof -
  have "list_getitem (selectedIndexes s) 0 = Inr index"
    using assms(1) by (simp add: list_getitem_def)
  moreover have "url (heap s) (rssModel s) index = Inr l"
    using assms(2-4) by (intro url_row [where i = "nat (row index)"]) (simp_all add: rowCount_def)
  ultimately show ?thesis by (simp add: on_double_click_def)
qed

theorem on_double_click_navigates_witness:
  "selectedIndexes (example_frame\<lparr>selectedIndexes := [\<lparr>row = 0, column = 1, has_model = True\<rparr>]\<rparr>) =
     \<lparr>row = 0, column = 1, has_model = True\<rparr> # [] \<and>
   (0::int) < rowCount (heap example_frame) (rssModel example_frame) \<and>
   heap example_frame (arraydata (rssModel example_frame)) ! 0 = [''A'', ''Site'', ''sa'', ''http://x/a''] \<and>
   browser (snd (on_double_click (example_frame\<lparr>selectedIndexes := [\<lparr>row = 0, column = 1, has_model = True\<rparr>]\<rparr>))) =
     Some (QUrl ''http://x/a'')"
  using on_double_click_navigates [of "example_frame\<lparr>selectedIndexes := [\<lparr>row = 0, column = 1, has_model = True\<rparr>]\<rparr>"
      "\<lparr>row = 0, column = 1, has_model = True\<rparr>" "[]" "''A''" "''Site''" "''sa''" "''http://x/a''"]
  by (simp add: example_frame_def rowCount_def)

text \<open>
  C6, as amended. In every reachable state \<open>columnCount\<close> is 0 while the list is empty and
  2 once it holds an article; the horizontal display-role headers of sections 0 and 1 are
  Title and Website. As stated (always 2, headers Title and Source) the claim fails in the
  constructor's state and at section 1.
\<close>

theorem model_shape:
  assumes "reachable s"
  shows "(rowCount (heap s) (rssModel s) = 0 \<longrightarrow> columnCount (heap s) (rssModel s) = 0) \<and>
         (0 < rowCount (heap s) (rssModel s) \<longrightarrow> columnCount (heap s) (rssModel s) = 2) \<and>
         headerData 0 Horizontal DisplayRole = Inr (Some ''Title'') \<and>
         headerData 1 Horizontal DisplayRole = Inr (Some ''Website'')"
proof -
  from reachable_well_formed [OF assms]
  have "list_all (\<lambda>r. length r = 4) (heap s (arraydata (rssModel s)))"
    by (simp add: well_formed_def)
  then have "0 < length (heap s (arraydata (rssModel s))) \<Longrightarrow>
      length (heap s (arraydata (rssModel s)) ! 0) = 4"
    by (simp add: list_all_length)
  then show ?thesis
    by (auto simp: rowCount_def columnCount_def headerData_def list_getitem_def)
qed

theorem model_shape_witness:
  "reachable example_frame \<and> reachable init \<and>
   rowCount (heap init) (rssModel init) = 0 \<and> columnCount (heap init) (rssModel init) = 0 \<and>
   0 < rowCount (heap example_frame) (rssModel example_frame) \<and>
   columnCount (heap example_frame) (rssModel example_frame) = 2"
  using model_shape [OF reachable_example_frame] model_shape [OF reachable.start]
    reachable_example_frame reachable.start
  by (simp add: rowCount_def example_frame_def init_def)

theorem model_shape_counterexample:
  "columnCount (heap init) (rssModel init) \<noteq> 2 \<and>
   headerData 1 Horizontal DisplayRole \<noteq> Inr (Some ''Source'')"
  by (simp add: columnCount_def init_def headerData_def list_getitem_def)

text \<open>
  C7. For a valid index, \<open>data\<close> returns the empty value for every column from 2 on and for
  every role but the display role; when it returns a text, the role is the display role,
  the column is 0 or 1 and the text is that field (title or source) of the row, so the
  summary and the link, at positions 2 and 3, are never shown.
\<close>

theorem data_only_title_and_source:
  assumes "isValid index"
  shows "(2 \<le> column index \<or> role \<noteq> DisplayRole \<longrightarrow>
            data_RssModel h m index role = Inr QVariantEmpty) \<and>
         (\<forall>v. data_RssModel h m index role = Inr (QVariant v) \<longrightarrow>
            role = DisplayRole \<and> (column index = 0 \<or> column index = 1) \<and>
            row index < rowCount h m \<and>
            v = h (arraydata m) ! nat (row index) ! nat (column index))"
  using assms
  by (auto simp: data_RssModel_def isValid_def list_getitem_def rowCount_def
      split: sum.splits if_splits)

theorem data_only_title_and_source_witness:
  "isValid \<lparr>row = 0, column = 2, has_model = True\<rparr> \<and>
   data_RssModel (heap example_frame) (rssModel example_frame)
     \<lparr>row = 0, column = 2, has_model = True\<rparr> DisplayRole = Inr QVariantEmpty \<and>
   isValid \<lparr>row = 0, column = 1, has_model = True\<rparr> \<and>
   data_RssModel (heap example_frame) (rssModel example_frame)
     \<lparr>row = 0, column = 1, has_model = True\<rparr> 1 = Inr QVariantEmpty \<and>
   data_RssModel (heap example_frame) (rssModel example_frame)
     \<lparr>row = 0, column = 1, has_model = True\<rparr> DisplayRole = Inr (QVariant ''Site'') \<and>
   ''Site'' = heap example_frame (arraydata (rssModel example_frame)) ! nat 0 ! nat 1"
  using data_only_title_and_source [of "\<lparr>row = 0, column = 2, has_model = True\<rparr>" DisplayRole
      "heap example_frame" "rssModel example_frame"]
    data_only_title_and_source [of "\<lparr>row = 0, column = 1, has_model = True\<rparr>" 1
      "heap example_frame" "rssModel example_frame"]
    data_only_title_and_source [of "\<lparr>row = 0, column = 1, has_model = True\<rparr>" DisplayRole
      "heap example_frame" "rssModel example_frame"]
  by (simp add: isValid_def DisplayRole_def example_frame_def data_RssModel_def list_getitem_def)

text \<open>
  C8, as amended. For a row index at or beyond the length of the list, or below minus the
  length, \<open>summary\<close> and \<open>url\<close> raise an index error; they only read, so the list is as it
  was. A negative index from minus the length to \<open>-1\<close> is not rejected: Python counts it
  from the end of the list, and the accessors return the summary and the link of the row
  at the length plus the index. As stated the claim fails there: at row \<open>-1\<close>, the row of
  the default index, the accessors return the fields of the last article.
\<close>

theorem accessors_index_error:
  "(rowCount h m \<le> row index \<or> row index < - rowCount h m \<longrightarrow>
      summary h m index = Inl IndexError \<and> url h m index = Inl IndexError) \<and>
   (- rowCount h m \<le> row index \<and> row index < 0 \<and>
    h (arraydata m) ! nat (rowCount h m + row index) = [t, w, sm, l] \<longrightarrow>
      summary h m index = Inr sm \<and> url h m index = Inr l)"
  by (auto simp: summary_def url_def list_getitem_def rowCount_def)

theorem accessors_index_error_witness:
  "rowCount (heap example_frame) (rssModel example_frame) \<le>
     row \<lparr>row = 2, column = 0, has_model = True\<rparr> \<and>
   summary (heap example_frame) (rssModel example_frame)
     \<lparr>row = 2, column = 0, has_model = True\<rparr> = Inl IndexError \<and>
   url (heap example_frame) (rssModel example_frame)
     \<lparr>row = 2, column = 0, has_model = True\<rparr> = Inl IndexError \<and>
   row \<lparr>row = - 3, column = 0, has_model = True\<rparr> <
     - rowCount (heap example_frame) (rssModel example_frame) \<and>
   summary (heap example_frame) (rssModel example_frame)
     \<lparr>row = - 3, column = 0, has_model = True\<rparr> = Inl IndexError \<and>
   url (heap example_frame) (rssModel example_frame)
     \<lparr>row = - 3, column = 0, has_model = True\<rparr> = Inl IndexError \<and>
   - rowCount (heap example_frame) (rssModel example_frame) \<le>
     row \<lparr>row = - 2, column = 0, has_model = True\<rparr> \<and>
   row \<lparr>row = - 2, column = 0, has_model = True\<rparr> < 0 \<and>
   heap example_frame (arraydata (rssModel example_frame)) !
     nat (rowCount (heap example_frame) (rssModel example_frame) +
          row \<lparr>row = - 2, column = 0, has_model = True\<rparr>) =
     [''A'', ''Site'', ''sa'', ''http://x/a''] \<and>
   summary (heap example_frame) (rssModel example_frame)
     \<lparr>row = - 2, column = 0, has_model = True\<rparr> = Inr ''sa'' \<and>
   url (heap example_frame) (rssModel example_frame)
     \<lparr>row = - 2, column = 0, has_model = True\<rparr> = Inr ''http://x/a''"
  using accessors_index_error [of "heap example_frame" "rssModel example_frame"
      "\<lparr>row = 2, column = 0, has_model = True\<rparr>"]
    accessors_index_error [of "heap example_frame" "rssModel example_frame"
      "\<lparr>row = - 3, column = 0, has_model = True\<rparr>"]
    accessors_index_error [of "heap example_frame" "rssModel example_frame"
      "\<lparr>row = - 2, column = 0, has_model = True\<rparr>" "''A''" "''Site''" "''sa''"
      "''http://x/a''"]
  by (simp add: rowCount_def example_frame_def)

theorem accessors_index_error_counterexample:
  "\<not> (0 \<le> row \<lparr>row = - 1, column = - 1, has_model = False\<rparr> \<and>
      row \<lparr>row = - 1, column = - 1, has_model = False\<rparr> <
        rowCount (heap example_frame) (rssModel example_frame)) \<and>
   summary (heap example_frame) (rssModel example_frame)
     \<lparr>row = - 1, column = - 1, has_model = False\<rparr> = Inr ''sb'' \<and>
   url (heap example_frame) (rssModel example_frame)
     \<lparr>row = - 1, column = - 1, has_model = False\<rparr> = Inr ''http://x/b''"
  by (simp add: rowCount_def example_frame_def summary_def url_def list_getitem_def)

text \<open>
  C9. With nothing selected, the single-selection handler and the double-selection handler
  both raise an index error and leave the state as it was.
\<close>

theorem no_selection_raises:
  assumes "selectedIndexes s = []"
  shows "on_click s = (Inl IndexError, s) \<and> on_double_click s = (Inl IndexError, s)"
  using assms by (simp add: on_click_def on_double_click_def list_getitem_def)

theorem no_selection_raises_witness:
  "selectedIndexes example_frame = [] \<and>
   on_click example_frame = (Inl IndexError, example_frame) \<and>
   on_double_click example_frame = (Inl IndexError, example_frame)"
  using no_selection_raises [of example_frame]
  by (simp add: example_frame_def)

text \<open>
  C10. When the feed has a title and the entry \<open>e\<close> is the first that lacks a field, the
  fetch raises the key error of the first missing field, the records of the entries before
  \<open>e\<close> stay appended, and the model is as it was: no layout change was signalled. When the
  feed-level title is missing, the fetch raises before anything is appended and the state
  is as it was.
\<close>

theorem fetch_not_atomic:
  assumes "on_button_click parse s = (res, s')"
  shows "(feed (parse (feedURLEdit s)) ''title'' = Some website \<and>
          entries (parse (feedURLEdit s)) = pre @ e # post \<and>
          list_all has_fields pre \<and> \<not> has_fields e \<longrightarrow>
            res = Inl (KeyError (missing_key e)) \<and>
            data s' = data s \<and>
            heap s' (data s) = heap s (data s) @ map (record_of website) pre \<and>
            rssModel s' = rssModel s) \<and>
         (feed (parse (feedURLEdit s)) ''title'' = None \<longrightarrow>
            res = Inl (KeyError ''title'') \<and> s' = s)"
  using assms
  by (auto simp: on_button_click_def Let_def dict_getitem_def loop_fail appended_def)

theorem fetch_not_atomic_witness:
  "on_button_click broken_parse init =
     (Inl (KeyError ''link''),
      init\<lparr>heap := (heap init)(0 := [[''A'', ''Site'', ''sa'', ''http://x/a'']])\<rparr>) \<and>
   feed (broken_parse (feedURLEdit init)) ''title'' = Some ''Site'' \<and>
   entries (broken_parse (feedURLEdit init)) =
     [[''title'' \<mapsto> ''A'', ''link'' \<mapsto> ''http://x/a'', ''summary'' \<mapsto> ''sa'']] @
     [''title'' \<mapsto> ''B'', ''summary'' \<mapsto> ''sb''] #
     [[''title'' \<mapsto> ''C'', ''link'' \<mapsto> ''http://x/c'', ''summary'' \<mapsto> ''sc'']] \<and>
   list_all has_fields [[''title'' \<mapsto> ''A'', ''link'' \<mapsto> ''http://x/a'', ''summary'' \<mapsto> ''sa'']] \<and>
   \<not> has_fields [''title'' \<mapsto> ''B'', ''summary'' \<mapsto> ''sb''] \<and>
   missing_key [''title'' \<mapsto> ''B'', ''summary'' \<mapsto> ''sb''] = ''link'' \<and>
   layoutChanged (rssModel (snd (on_button_click broken_parse init))) = 0 \<and>
   feed (untitled_parse (feedURLEdit example_frame)) ''title'' = None \<and>
   on_button_click untitled_parse example_frame = (Inl (KeyError ''title''), example_frame)"
  using fetch_not_atomic [of broken_parse init "Inl (KeyError ''link'')"
      "init\<lparr>heap := (heap init)(0 := [[''A'', ''Site'', ''sa'', ''http://x/a'']])\<rparr>" "''Site''"
      "[[''title'' \<mapsto> ''A'', ''link'' \<mapsto> ''http://x/a'', ''summary'' \<mapsto> ''sa'']]"
      "[''title'' \<mapsto> ''B'', ''summary'' \<mapsto> ''sb'']"
      "[[''title'' \<mapsto> ''C'', ''link'' \<mapsto> ''http://x/c'', ''summary'' \<mapsto> ''sc'']]"]
    fetch_not_atomic [of untitled_parse example_frame "Inl (KeyError ''title'')" example_frame]
  by (simp add: on_button_click_def broken_parse_def untitled_parse_def init_def Let_def
      dict_getitem_def entry_row_def data_append_def has_fields_def missing_key_def)

end
